theory Spec2Isabelle
  imports Main "HOL-Library.Word"
begin

section \<open>The interactive flow of \<open>src/prompt.ts\<close>\<close>

text \<open>
  The program asks for a request in plain words, obtains a shell script from a completion
  backend and then lets the user run, edit, explain, revise or copy it.  Everything the
  program does is an interaction with a collaborator (the terminal, the backend, the
  subshell, the clipboard, the shell history), so the embedding is a state-passing one:
  a \<open>world\<close> holds what the collaborators will answer, in the order in which they are
  asked, and the list of the events the program has caused so far.  Every function of the
  source becomes a function from the world to a result and the world after it.
\<close>

subsection \<open>Strings\<close>

text \<open>
  A JavaScript string is a sequence of 16-bit code units.  \<open>!value\<close> on a string is the
  test for the empty sequence.
\<close>

type_synonym code_unit = "16 word"
type_synonym jsstring = "code_unit list"

text \<open>
  \<open>String.prototype.trim\<close> removes the leading and trailing code units that are
  ECMAScript white space or line terminators.
\<close>

definition is_white_space :: "code_unit \<Rightarrow> bool" where
  "is_white_space c = (c \<in> set [0x0009, 0x000A, 0x000B, 0x000C, 0x000D, 0x0020, 0x00A0,
     0x1680, 0x2000, 0x2001, 0x2002, 0x2003, 0x2004, 0x2005, 0x2006, 0x2007, 0x2008,
     0x2009, 0x200A, 0x2028, 0x2029, 0x202F, 0x205F, 0x3000, 0xFEFF])"

definition trim :: "jsstring \<Rightarrow> jsstring" where
  "trim s = rev (dropWhile is_white_space (rev (dropWhile is_white_space s)))"

subsection \<open>Messages, menu entries and events\<close>

text \<open>
  \<open>T k\<close> stands for \<open>i18n.t(k)\<close>, the translation of the key \<open>k\<close>; \<open>Banner\<close> is the
  closing line with the flag between two dimmed rules; \<open>Running s\<close> is
  \<open>i18n.t('Running') + ': ' + s\<close>; \<open>Arrow s\<close> is \<open>'-> ' + s\<close>; \<open>Heading k\<close> is
  \<open>i18n.t(k) + ':'\<close>.
\<close>

datatype message = T string | Banner | Running jsstring | Arrow jsstring | Heading string

datatype decision = Run | Edit | Explain | Revise | Copy | Cancel

text \<open>
  An entry of the select menu.  In the source the value of an entry is the closure to
  call; here it is the name of that closure.  The pictogram in front of each label is
  left out.
\<close>

record menu_option =
  label :: message
  hint :: message
  action :: decision

datatype console_line = Blank | Dot

text \<open>
  The three requests the program sends to the backend, with all the arguments the source
  passes.
\<close>

datatype request =
    Script_and_info jsstring jsstring jsstring jsstring
  | Explanation jsstring jsstring jsstring
  | Revision jsstring jsstring jsstring jsstring

text \<open>
  \<open>Script_and_info prompt key model apiEndpoint\<close>, \<open>Explanation script key apiEndpoint\<close>,
  \<open>Revision prompt code key apiEndpoint\<close>.
\<close>

datatype event =
    Intro
  | Log_info jsstring
  | Text_prompt message "jsstring option"
  | Validation message
  | Cancel_msg message
  | Outro message
  | Spin_start message
  | Spin_stop message
  | Console_log console_line
  | Request request
  | Read_info
  | Select message "menu_option list"
  | Exec jsstring
  | History jsstring
  | Clipboard jsstring

text \<open>
  \<open>Text_prompt m i\<close> is a text input opened with message \<open>m\<close> and initial value \<open>i\<close>;
  \<open>Select m os\<close> is the decision menu rendered with message \<open>m\<close> and entries \<open>os\<close>;
  \<open>Request r\<close> is a request sent to the backend; \<open>Read_info\<close> is a call of the
  \<open>readInfo\<close> accessor; \<open>Exec s\<close> is \<open>execaCommand(s)\<close>; \<open>History s\<close> is
  \<open>appendToShellHistory(s)\<close>; \<open>Clipboard s\<close> is \<open>clipboardy.write(s)\<close>.  The chunks that
  a stream echoes on standard output while it is read, and the random placeholder of the
  first text input, are not recorded.
\<close>

subsection \<open>What the collaborators answer\<close>

datatype text_input = Submit jsstring | Ctrl_C

datatype pick = Pick decision | Esc

text \<open>
  At a text input the user submits a value or cancels; at the menu the user picks an
  entry or cancels.
\<close>

datatype stream = Broken | Full jsstring

datatype reply = Refused | Accepted stream

text \<open>
  A request is refused (the call throws) or accepted; an accepted request gives a reader
  (\<open>readScript\<close>, \<open>readExplanation\<close>), and reading it to its end gives the whole text or
  fails when the stream ends abnormally.
\<close>

datatype exec_result = Succeeded | Nonzero_exit | Spawn_failed

datatype error = Config_error | Backend_error | Stream_error | Clipboard_error

record world =
  typed :: "text_input list"
  replies :: "reply list"
  infos :: "stream list"
  execs :: "exec_result list"
  clipboard_works :: bool
  trace :: "event list"

text \<open>
  \<open>typed\<close>: what the user does at the text inputs still to come; \<open>replies\<close>: what the
  backend answers to the requests still to come; \<open>infos\<close>: what the calls of the
  \<open>readInfo\<close> accessor still to come return (the accessor is made once, by
  \<open>getScriptAndInfo\<close>, and the same one is handed from flow to flow, so its state
  belongs to the world); \<open>execs\<close>: how the subshells still to come end; \<open>trace\<close>: the
  events so far, oldest first.  An empty list means that the collaborator does not
  answer any more: the program then waits.
\<close>

datatype stop = Exit nat | Throw error | Blocked

datatype 'a res = Ok 'a | Stop stop

text \<open>
  A function either returns a value (\<open>Ok\<close>) or does not return: the process has been
  ended by \<open>process.exit(n)\<close>, an exception is on its way up, or the function waits for a
  collaborator that does not answer.
\<close>

definition emit :: "event \<Rightarrow> world \<Rightarrow> world" where
  "emit e w = w\<lparr>trace := trace w @ [e]\<rparr>"

subsection \<open>The text input of the prompt library\<close>

text \<open>
  \<open>p.text\<close> with a \<open>validate\<close> callback: a submitted value for which the callback returns
  a message is not accepted; the message is shown and the input stays open.  The first
  argument is the list of what the user does at this and at later inputs.
\<close>

fun p_text :: "(jsstring \<Rightarrow> message option) \<Rightarrow> text_input list \<Rightarrow> world
    \<Rightarrow> text_input option \<times> world" where
  "p_text validate [] w = (None, w\<lparr>typed := []\<rparr>)"
| "p_text validate (Ctrl_C # rest) w = (Some Ctrl_C, w\<lparr>typed := rest\<rparr>)"
| "p_text validate (Submit v # rest) w =
     (case validate v of
        Some problem \<Rightarrow> p_text validate rest (emit (Validation problem) w)
      | None \<Rightarrow> (Some (Submit v), w\<lparr>typed := rest\<rparr>))"

subsection \<open>The backend\<close>

definition send :: "request \<Rightarrow> world \<Rightarrow> stream res \<times> world" where
  "send r w =
     (case replies w of
        [] \<Rightarrow> (Stop Blocked, emit (Request r) w)
      | Refused # rs \<Rightarrow> (Stop (Throw Backend_error), (emit (Request r) w)\<lparr>replies := rs\<rparr>)
      | Accepted s # rs \<Rightarrow> (Ok s, (emit (Request r) w)\<lparr>replies := rs\<rparr>))"

definition drain :: "stream \<Rightarrow> jsstring res" where
  "drain s = (case s of Broken \<Rightarrow> Stop (Throw Stream_error) | Full text \<Rightarrow> Ok text)"

definition readInfo :: "world \<Rightarrow> jsstring res \<times> world" where
  "readInfo w =
     (case infos w of
        [] \<Rightarrow> (Stop Blocked, emit Read_info w)
      | s # rest \<Rightarrow> (drain s, (emit Read_info w)\<lparr>infos := rest\<rparr>))"

subsection \<open>\<open>runScript\<close>\<close>

text \<open>
  The call of \<open>execaCommand\<close> and the call of \<open>appendToShellHistory\<close> after it are inside
  one \<open>try\<close> whose \<open>catch\<close> is empty.
\<close>

definition runScript :: "jsstring \<Rightarrow> world \<Rightarrow> unit res \<times> world" where
  "runScript script w =
     (let w1 = emit (Exec script) (emit (Console_log Blank) (emit (Outro (Running script)) w))
      in case execs w1 of
           [] \<Rightarrow> (Stop Blocked, w1)
         | Succeeded # rest \<Rightarrow> (Ok (), emit (History script) (w1\<lparr>execs := rest\<rparr>))
         | Nonzero_exit # rest \<Rightarrow> (Ok (), w1\<lparr>execs := rest\<rparr>)
         | Spawn_failed # rest \<Rightarrow> (Ok (), w1\<lparr>execs := rest\<rparr>))"

subsection \<open>\<open>getPrompt\<close> and \<open>promptForRevision\<close>\<close>

definition validate :: "jsstring \<Rightarrow> message option" where
  "validate value = (if value = [] then Some (T ''Please enter a prompt.'') else None)"

text \<open>
  \<open>getPrompt\<close> also gives the input a \<open>defaultValue\<close>; the library puts it in the place
  of an accepted empty value, and \<open>validate\<close> accepts no empty value.
\<close>

definition getPrompt :: "jsstring option \<Rightarrow> world \<Rightarrow> jsstring res \<times> world" where
  "getPrompt prompt w =
     (case p_text validate (typed w)
             (emit (Text_prompt (T ''What would you like me to do?'') prompt) w) of
        (None, w') \<Rightarrow> (Stop Blocked, w')
      | (Some Ctrl_C, w') \<Rightarrow> (Stop (Exit 0), emit (Cancel_msg (T ''Goodbye!'')) w')
      | (Some (Submit v), w') \<Rightarrow> (Ok v, w'))"

definition promptForRevision :: "world \<Rightarrow> jsstring res \<times> world" where
  "promptForRevision w =
     (case p_text validate (typed w)
             (emit (Text_prompt (T ''What would you like me to change in this script?'') None) w) of
        (None, w') \<Rightarrow> (Stop Blocked, w')
      | (Some Ctrl_C, w') \<Rightarrow> (Stop (Exit 0), emit (Cancel_msg Banner) w')
      | (Some (Submit v), w') \<Rightarrow> (Ok v, w'))"

subsection \<open>The decision menu\<close>

definition emptyScript :: "jsstring \<Rightarrow> bool" where
  "emptyScript script = (trim script = [])"

definition menu_message :: "jsstring \<Rightarrow> message" where
  "menu_message script =
     (if emptyScript script then T ''Revise this script?'' else T ''Run this script?'')"

definition menu_options :: "jsstring \<Rightarrow> menu_option list" where
  "menu_options script =
     (if emptyScript script then []
      else [\<lparr>label = T ''Yes'', hint = T ''Lets go!'', action = Run\<rparr>,
            \<lparr>label = T ''Edit'', hint = T ''Make some adjustments before running'',
             action = Edit\<rparr>])
     @ [\<lparr>label = T ''Explain'', hint = T ''Explain the script'', action = Explain\<rparr>,
        \<lparr>label = T ''Revise'', hint = T ''Give feedback via prompt and get a new result'',
         action = Revise\<rparr>,
        \<lparr>label = T ''Copy'', hint = T ''Copy the generated script to your clipboard'',
         action = Copy\<rparr>,
        \<lparr>label = T ''Cancel'', hint = T ''Exit the program'', action = Cancel\<rparr>]"

definition offered :: "jsstring \<Rightarrow> decision list" where
  "offered script = map action (menu_options script)"

subsection \<open>\<open>runOrReviseFlow\<close>, \<open>explanationFlow\<close>, \<open>revisionFlow\<close>\<close>

text \<open>
  Each round of the menu takes one pick of the user, so the three flows, which call one
  another, recurse on the list of the picks still to come.  A cancelled menu gives a
  value that is not a function, and the flow returns.  A pick of an entry that the menu
  does not show cannot be made: the menu stays open.

  The \<open>silentMode\<close> argument is passed on from flow to flow and read by none of them.
\<close>

function (sequential) runOrReviseFlow :: "pick list \<Rightarrow> jsstring \<Rightarrow> jsstring \<Rightarrow> jsstring \<Rightarrow> bool \<Rightarrow> world
      \<Rightarrow> unit res \<times> world"
  and explanationFlow :: "pick list \<Rightarrow> jsstring \<Rightarrow> jsstring \<Rightarrow> jsstring \<Rightarrow> bool \<Rightarrow> world
      \<Rightarrow> unit res \<times> world"
  and revisionFlow :: "pick list \<Rightarrow> jsstring \<Rightarrow> jsstring \<Rightarrow> jsstring \<Rightarrow> bool \<Rightarrow> world
      \<Rightarrow> unit res \<times> world"
where
  "runOrReviseFlow [] script key apiEndpoint silentMode w =
     (Stop Blocked, emit (Select (menu_message script) (menu_options script)) w)"
| "runOrReviseFlow (Esc # picks) script key apiEndpoint silentMode w =
     (Ok (), emit (Select (menu_message script) (menu_options script)) w)"
| "runOrReviseFlow (Pick answer # picks) script key apiEndpoint silentMode w =
     (let w1 = emit (Select (menu_message script) (menu_options script)) w
      in if answer \<in> set (offered script) then
           (case answer of
              Run \<Rightarrow> runScript script w1
            | Edit \<Rightarrow>
                (case p_text (\<lambda>value. None) (typed w1)
                        (emit (Text_prompt (T ''you can edit script here:'') (Some script)) w1) of
                   (None, w2) \<Rightarrow> (Stop Blocked, w2)
                 | (Some Ctrl_C, w2) \<Rightarrow> (Ok (), w2)
                 | (Some (Submit newScript), w2) \<Rightarrow> runScript newScript w2)
            | Explain \<Rightarrow> explanationFlow picks script key apiEndpoint silentMode w1
            | Revise \<Rightarrow> revisionFlow picks script key apiEndpoint silentMode w1
            | Copy \<Rightarrow>
                (if clipboard_works w1
                 then (Ok (), emit (Outro (T ''Copied to clipboard!'')) (emit (Clipboard script) w1))
                 else (Stop (Throw Clipboard_error), emit (Clipboard script) w1))
            | Cancel \<Rightarrow> (Stop (Exit 0), emit (Cancel_msg Banner) w1))
         else (Stop Blocked, w1))"
| "explanationFlow picks script key apiEndpoint silentMode w =
     (case readInfo (emit (Spin_start (T ''Getting explanation...'')) w) of
        (Stop s, w1) \<Rightarrow> (Stop s, w1)
      | (Ok info, w1) \<Rightarrow>
          (if info = [] then
             (case send (Explanation script key apiEndpoint) w1 of
                (Stop s, w2) \<Rightarrow> (Stop s, w2)
              | (Ok readExplanation, w2) \<Rightarrow>
                  (let w3 = emit (Console_log Blank) (emit (Spin_stop (Heading ''Explanation'')) w2)
                   in case drain readExplanation of
                        Stop s \<Rightarrow> (Stop s, w3)
                      | Ok explanation \<Rightarrow>
                          runOrReviseFlow picks script key apiEndpoint silentMode
                            (emit (Console_log Dot) (emit (Console_log Blank) w3))))
           else runOrReviseFlow picks script key apiEndpoint silentMode w1))"
| "revisionFlow picks currentScript key apiEndpoint silentMode w =
     (case promptForRevision w of
        (Stop s, w1) \<Rightarrow> (Stop s, w1)
      | (Ok revision, w1) \<Rightarrow>
          (case send (Revision revision currentScript key apiEndpoint)
                  (emit (Spin_start (T ''Loading...'')) w1) of
             (Stop s, w2) \<Rightarrow> (Stop s, w2)
           | (Ok readScript, w2) \<Rightarrow>
               (let w3 = emit (Console_log Blank) (emit (Spin_stop (Heading ''Your new script'')) w2)
                in case drain readScript of
                     Stop s \<Rightarrow> (Stop s, w3)
                   | Ok script \<Rightarrow>
                       runOrReviseFlow picks script key apiEndpoint silentMode
                         (emit (Console_log Dot) (emit (Console_log Blank)
                            (emit (Console_log Blank) w3))))))"
  by pat_completeness auto

termination
  by (relation "measure (\<lambda>x. case x of
        Inl (picks, _) \<Rightarrow> 2 * length picks
      | Inr (Inl (picks, _)) \<Rightarrow> 2 * length picks + 1
      | Inr (Inr (picks, _)) \<Rightarrow> 2 * length picks + 1)") auto

subsection \<open>\<open>prompt\<close>\<close>

record config =
  OPENAI_KEY :: jsstring
  SILENT_MODE :: bool
  OPENAI_API_ENDPOINT :: jsstring
  MODEL :: jsstring

text \<open>
  \<open>usePrompt\<close> and \<open>silentMode\<close> are optional arguments; \<open>None\<close> is \<open>undefined\<close>.  The
  third argument is what \<open>getConfig\<close> gives: the settings, or the error it throws.
\<close>

definition truthy :: "bool option \<Rightarrow> bool" where
  "truthy b = (case b of None \<Rightarrow> False | Some v \<Rightarrow> v)"

definition prompt :: "pick list \<Rightarrow> jsstring option \<Rightarrow> bool option \<Rightarrow> error + config \<Rightarrow> world
    \<Rightarrow> unit res \<times> world" where
  "prompt picks usePrompt silentMode cfg w =
     (case cfg of
        Inl e \<Rightarrow> (Stop (Throw e), w)
      | Inr c \<Rightarrow>
          (let skip = (truthy silentMode \<or> SILENT_MODE c);
               w1 = emit (Log_info (case usePrompt of None \<Rightarrow> [] | Some u \<Rightarrow> u)) (emit Intro w)
           in case (case usePrompt of
                      None \<Rightarrow> getPrompt None w1
                    | Some u \<Rightarrow> if u = [] then getPrompt None w1 else (Ok u, w1)) of
                (Stop s, w2) \<Rightarrow> (Stop s, w2)
              | (Ok thePrompt, w2) \<Rightarrow>
                  (case send (Script_and_info thePrompt (OPENAI_KEY c) (MODEL c)
                               (OPENAI_API_ENDPOINT c))
                          (emit (Spin_start (T ''Loading...'')) w2) of
                     (Stop s, w3) \<Rightarrow> (Stop s, w3)
                   | (Ok readScript, w3) \<Rightarrow>
                       (case drain readScript of
                          Stop s \<Rightarrow> (Stop s, w3)
                        | Ok script \<Rightarrow>
                            (let w4 = emit (Spin_stop (Arrow script)) w3
                             in if skip then (Stop (Exit 0), emit (Outro Banner) w4)
                                else runOrReviseFlow picks script (OPENAI_KEY c)
                                       (OPENAI_API_ENDPOINT c) (truthy silentMode) w4)))))"

subsection \<open>Reading a trace\<close>

definition emits :: "event list \<Rightarrow> world \<Rightarrow> world" where
  "emits es w = w\<lparr>trace := trace w @ es\<rparr>"

definition requests_of :: "event list \<Rightarrow> request list" where
  "requests_of tr = concat (map (\<lambda>e. case e of Request r \<Rightarrow> [r] | _ \<Rightarrow> []) tr)"

definition menus_of :: "event list \<Rightarrow> (message \<times> menu_option list) list" where
  "menus_of tr = concat (map (\<lambda>e. case e of Select m os \<Rightarrow> [(m, os)] | _ \<Rightarrow> []) tr)"

definition executions_of :: "event list \<Rightarrow> jsstring list" where
  "executions_of tr = concat (map (\<lambda>e. case e of Exec s \<Rightarrow> [s] | _ \<Rightarrow> []) tr)"

definition history_of :: "event list \<Rightarrow> jsstring list" where
  "history_of tr = concat (map (\<lambda>e. case e of History s \<Rightarrow> [s] | _ \<Rightarrow> []) tr)"

text \<open>The events that a run from \<open>w\<close> to \<open>w'\<close> has added.\<close>

definition emitted :: "world \<Rightarrow> world \<Rightarrow> event list" where
  "emitted w w' = drop (length (trace w)) (trace w')"

text \<open>
  No spinner is running: as many spinners have been stopped as have been started.  (Each
  flow makes its own spinner, starts it once and stops it at most once.)
\<close>

definition idle :: "event list \<Rightarrow> bool" where
  "idle tr =
     (length (concat (map (\<lambda>e. case e of Spin_start m \<Rightarrow> [m] | _ \<Rightarrow> []) tr)) =
      length (concat (map (\<lambda>e. case e of Spin_stop m \<Rightarrow> [m] | _ \<Rightarrow> []) tr)))"

subsection \<open>Some concrete inputs\<close>

text \<open>The strings \<open>ls\<close>, \<open>ls -a\<close>, \<open>hi\<close>, \<open>k\<close> and \<open>e\<close>, and three blanks of different kinds.\<close>

definition ls :: jsstring where "ls = [0x6C, 0x73]"
definition ls_a :: jsstring where "ls_a = [0x6C, 0x73, 0x20, 0x2D, 0x61]"
definition hi :: jsstring where "hi = [0x68, 0x69]"
definition k0 :: jsstring where "k0 = [0x6B]"
definition e0 :: jsstring where "e0 = [0x65]"
definition blanks :: jsstring where "blanks = [0x20, 0x09, 0x3000]"

definition world0 :: world where
  "world0 = \<lparr>typed = [], replies = [], infos = [], execs = [], clipboard_works = True,
     trace = []\<rparr>"

definition config0 :: config where
  "config0 = \<lparr>OPENAI_KEY = k0, SILENT_MODE = False, OPENAI_API_ENDPOINT = e0, MODEL = hi\<rparr>"

subsection \<open>Predicates on events\<close>

text \<open>
  A request is \<open>prompted\<close> when the text it was made from (the prompt of a generation,
  the feedback of a revision) is not empty.
\<close>

definition prompted :: "request \<Rightarrow> bool" where
  "prompted r = (case r of
      Script_and_info p k m e \<Rightarrow> p \<noteq> []
    | Explanation s k e \<Rightarrow> True
    | Revision p c k e \<Rightarrow> p \<noteq> [])"

text \<open>
  A menu is complete when it has the four entries that do not depend on the script and
  when its message agrees with its first entries: the message that asks for a revision
  goes with a menu without \<open>Run\<close> and \<open>Edit\<close>, the message that asks for a run with a
  menu that has both.
\<close>

definition menu_complete :: "message \<times> menu_option list \<Rightarrow> bool" where
  "menu_complete menu =
     (let m = fst menu; ds = map action (snd menu)
      in Explain \<in> set ds \<and> Revise \<in> set ds \<and> Copy \<in> set ds \<and> Cancel \<in> set ds
         \<and> (if m = T ''Revise this script?'' then Run \<notin> set ds \<and> Edit \<notin> set ds
             else m = T ''Run this script?'' \<and> Run \<in> set ds \<and> Edit \<in> set ds))"

definition sound_event :: "event \<Rightarrow> bool" where
  "sound_event e = (case e of
      Select m os \<Rightarrow> menu_complete (m, os)
    | Request r \<Rightarrow> prompted r
    | _ \<Rightarrow> True)"

text \<open>\<open>w'\<close> has the trace of \<open>w\<close> followed by sound events only.\<close>

definition extends :: "world \<Rightarrow> world \<Rightarrow> bool" where
  "extends w w' = (\<exists>es. trace w' = trace w @ es \<and> list_all sound_event es)"


definition w_explain :: world where
  "w_explain = world0\<lparr>infos := [Full [], Full []],
     replies := [Accepted (Full hi), Accepted (Full hi)]\<rparr>"

definition w_revise :: world where
  "w_revise = world0\<lparr>typed := [Submit hi],
     replies := [Accepted (Full ls_a), Accepted (Full hi)], infos := [Full hi]\<rparr>"

section \<open>Properties\<close>

subsection \<open>Auxiliary facts\<close>

declare runOrReviseFlow.simps(3) [simp del] explanationFlow.simps [simp del]
  revisionFlow.simps [simp del]

lemma emit_fields [simp]:
  "typed (emit e w) = typed w" "replies (emit e w) = replies w" "infos (emit e w) = infos w"
  "execs (emit e w) = execs w" "clipboard_works (emit e w) = clipboard_works w"
  "trace (emit e w) = trace w @ [e]"
  by (simp_all add: emit_def)

lemma emits_fields [simp]:
  "typed (emits es w) = typed w" "replies (emits es w) = replies w"
  "infos (emits es w) = infos w" "execs (emits es w) = execs w"
  "clipboard_works (emits es w) = clipboard_works w" "trace (emits es w) = trace w @ es"
  by (simp_all add: emits_def)

lemma emits_norm:
  "emit e w = emits [e] w"
  "emits es (emits es' w) = emits (es' @ es) w"
  "(emits es w)\<lparr>typed := ts\<rparr> = emits es (w\<lparr>typed := ts\<rparr>)"
  "(emits es w)\<lparr>replies := rs\<rparr> = emits es (w\<lparr>replies := rs\<rparr>)"
  "(emits es w)\<lparr>infos := is\<rparr> = emits es (w\<lparr>infos := is\<rparr>)"
  "(emits es w)\<lparr>execs := xs\<rparr> = emits es (w\<lparr>execs := xs\<rparr>)"
  by (simp_all add: emits_def emit_def)

lemma world0_fields [simp]:
  "typed world0 = []" "replies world0 = []" "infos world0 = []" "execs world0 = []"
  "clipboard_works world0" "trace world0 = []"
  by (simp_all add: world0_def)

lemma offered_always:
  "Explain \<in> set (offered script)" "Revise \<in> set (offered script)"
  "Copy \<in> set (offered script)" "Cancel \<in> set (offered script)"
  by (simp_all add: offered_def menu_options_def)

lemma offered_Run: "Run \<in> set (offered script) \<longleftrightarrow> \<not> emptyScript script"
  by (simp add: offered_def menu_options_def)

lemma offered_Edit: "Edit \<in> set (offered script) \<longleftrightarrow> \<not> emptyScript script"
  by (simp add: offered_def menu_options_def)

lemma offered_emptyScript: "emptyScript script \<Longrightarrow> offered script = [Explain, Revise, Copy, Cancel]"
  by (simp add: offered_def menu_options_def)

lemma trim_white: "\<forall>c\<in>set s. is_white_space c \<Longrightarrow> trim s = []"
  by (auto simp: trim_def dest: set_dropWhileD)

lemma ls_not_empty [simp]: "\<not> emptyScript ls" "\<not> emptyScript ls_a"
  by (simp_all add: emptyScript_def trim_def ls_def ls_a_def is_white_space_def)

lemma names_not_empty [simp]: "ls \<noteq> []" "ls_a \<noteq> []" "hi \<noteq> []"
  by (simp_all add: ls_def ls_a_def hi_def)

lemma menu_Explain:
  "runOrReviseFlow (Pick Explain # picks) script key ep sm w =
     explanationFlow picks script key ep sm
       (emit (Select (menu_message script) (menu_options script)) w)"
  by (simp add: runOrReviseFlow.simps(3) offered_always)

lemma menu_Revise:
  "runOrReviseFlow (Pick Revise # picks) script key ep sm w =
     revisionFlow picks script key ep sm
       (emit (Select (menu_message script) (menu_options script)) w)"
  by (simp add: runOrReviseFlow.simps(3) offered_always)

lemma menu_Cancel:
  "runOrReviseFlow (Pick Cancel # picks) script key ep sm w =
     (Stop (Exit 0), emits [Select (menu_message script) (menu_options script),
                            Cancel_msg Banner] w)"
  by (simp add: runOrReviseFlow.simps(3) offered_always emits_norm)

lemma menu_Edit_cancelled:
  assumes "\<not> emptyScript script" and "typed w = Ctrl_C # rest"
  shows "runOrReviseFlow (Pick Edit # picks) script key ep sm w =
     (Ok (), emits [Select (menu_message script) (menu_options script),
                    Text_prompt (T ''you can edit script here:'') (Some script)]
               (w\<lparr>typed := rest\<rparr>))"
  using assms by (simp add: runOrReviseFlow.simps(3) offered_Edit emits_norm)

lemma explain_cached:
  assumes "infos w = Full info # rest" and "info \<noteq> []"
  shows "runOrReviseFlow (Pick Explain # picks) script key ep sm w =
     runOrReviseFlow picks script key ep sm
       (emits [Select (menu_message script) (menu_options script),
               Spin_start (T ''Getting explanation...''), Read_info]
          (w\<lparr>infos := rest\<rparr>))"
  using assms
  by (simp add: menu_Explain explanationFlow.simps readInfo_def drain_def emits_norm)

lemma explain_fetched:
  assumes "infos w = Full [] # rest" and "replies w = Accepted (Full explanation) # rs"
  shows "runOrReviseFlow (Pick Explain # picks) script key ep sm w =
     runOrReviseFlow picks script key ep sm
       (emits [Select (menu_message script) (menu_options script),
               Spin_start (T ''Getting explanation...''), Read_info,
               Request (Explanation script key ep), Spin_stop (Heading ''Explanation''),
               Console_log Blank, Console_log Blank, Console_log Dot]
          (w\<lparr>infos := rest, replies := rs\<rparr>))"
  using assms
  by (simp add: menu_Explain explanationFlow.simps readInfo_def drain_def send_def emits_norm)

lemma explain_broken:
  assumes "infos w = Broken # rest"
  shows "runOrReviseFlow (Pick Explain # picks) script key ep sm w =
     (Stop (Throw Stream_error),
      emits [Select (menu_message script) (menu_options script),
             Spin_start (T ''Getting explanation...''), Read_info]
        (w\<lparr>infos := rest\<rparr>))"
  using assms
  by (simp add: menu_Explain explanationFlow.simps readInfo_def drain_def emits_norm)

lemma explain_unanswered:
  assumes "infos w = []"
  shows "runOrReviseFlow (Pick Explain # picks) script key ep sm w =
     (Stop Blocked,
      emits [Select (menu_message script) (menu_options script),
             Spin_start (T ''Getting explanation...''), Read_info] w)"
  using assms
  by (simp add: menu_Explain explanationFlow.simps readInfo_def emits_norm)

lemma revise_round:
  assumes "typed w = Submit feedback # ts" and "feedback \<noteq> []"
    and "replies w = Accepted (Full script') # rs"
  shows "runOrReviseFlow (Pick Revise # picks) script key ep sm w =
     runOrReviseFlow picks script' key ep sm
       (emits [Select (menu_message script) (menu_options script),
               Text_prompt (T ''What would you like me to change in this script?'') None,
               Spin_start (T ''Loading...''), Request (Revision feedback script key ep),
               Spin_stop (Heading ''Your new script''), Console_log Blank, Console_log Blank,
               Console_log Blank, Console_log Dot]
          (w\<lparr>typed := ts, replies := rs\<rparr>))"
  using assms
  by (simp add: menu_Revise revisionFlow.simps promptForRevision_def validate_def drain_def
      send_def emits_norm)

lemma validate_simps [simp]:
  "validate [] = Some (T ''Please enter a prompt.'')"
  "v \<noteq> [] \<Longrightarrow> validate v = None"
  "validate (x # xs) = None"
  by (simp_all add: validate_def)

lemma p_text_empty_submissions:
  "p_text validate (replicate n (Submit []) @ ts) w =
     p_text validate ts (emits (replicate n (Validation (T ''Please enter a prompt.''))) w)"
proof (induction n arbitrary: w)
  case 0
  show ?case by (simp add: emits_def)
next
  case (Suc n)
  show ?case by (simp add: Suc emits_norm)
qed

lemma getPrompt_cancelled:
  "typed w = replicate n (Submit []) @ Ctrl_C # rest \<Longrightarrow>
   getPrompt i w =
     (Stop (Exit 0),
      emits (Text_prompt (T ''What would you like me to do?'') i
             # replicate n (Validation (T ''Please enter a prompt.''))
             @ [Cancel_msg (T ''Goodbye!'')]) (w\<lparr>typed := rest\<rparr>))"
  by (simp add: getPrompt_def p_text_empty_submissions emits_norm)

lemma getPrompt_submitted:
  "typed w = replicate n (Submit []) @ Submit v # rest \<Longrightarrow> v \<noteq> [] \<Longrightarrow>
   getPrompt i w =
     (Ok v,
      emits (Text_prompt (T ''What would you like me to do?'') i
             # replicate n (Validation (T ''Please enter a prompt.''))) (w\<lparr>typed := rest\<rparr>))"
  by (simp add: getPrompt_def p_text_empty_submissions emits_norm)

lemma getPrompt_waiting:
  "typed w = replicate n (Submit []) \<Longrightarrow>
   getPrompt i w =
     (Stop Blocked,
      emits (Text_prompt (T ''What would you like me to do?'') i
             # replicate n (Validation (T ''Please enter a prompt.''))) (w\<lparr>typed := []\<rparr>))"
  using p_text_empty_submissions [of n "[]"]
  by (simp add: getPrompt_def emits_norm)

lemma promptForRevision_cancelled:
  "typed w = replicate n (Submit []) @ Ctrl_C # rest \<Longrightarrow>
   promptForRevision w =
     (Stop (Exit 0),
      emits (Text_prompt (T ''What would you like me to change in this script?'') None
             # replicate n (Validation (T ''Please enter a prompt.''))
             @ [Cancel_msg Banner]) (w\<lparr>typed := rest\<rparr>))"
  by (simp add: promptForRevision_def p_text_empty_submissions emits_norm)

lemma promptForRevision_submitted:
  "typed w = replicate n (Submit []) @ Submit v # rest \<Longrightarrow> v \<noteq> [] \<Longrightarrow>
   promptForRevision w =
     (Ok v,
      emits (Text_prompt (T ''What would you like me to change in this script?'') None
             # replicate n (Validation (T ''Please enter a prompt.''))) (w\<lparr>typed := rest\<rparr>))"
  by (simp add: promptForRevision_def p_text_empty_submissions emits_norm)

lemma promptForRevision_waiting:
  "typed w = replicate n (Submit []) \<Longrightarrow>
   promptForRevision w =
     (Stop Blocked,
      emits (Text_prompt (T ''What would you like me to change in this script?'') None
             # replicate n (Validation (T ''Please enter a prompt.''))) (w\<lparr>typed := []\<rparr>))"
  using p_text_empty_submissions [of n "[]"]
  by (simp add: promptForRevision_def emits_norm)

lemma prompt_cancelled:
  "typed w = replicate n (Submit []) @ Ctrl_C # rest \<Longrightarrow>
   prompt picks None sm (Inr c) w =
     (Stop (Exit 0),
      emits ([Intro, Log_info [], Text_prompt (T ''What would you like me to do?'') None]
             @ replicate n (Validation (T ''Please enter a prompt.''))
             @ [Cancel_msg (T ''Goodbye!'')]) (w\<lparr>typed := rest\<rparr>))"
  by (simp add: prompt_def getPrompt_cancelled [where rest = rest and n = n] emits_norm)

lemma revision_cancelled:
  "typed w = replicate n (Submit []) @ Ctrl_C # rest \<Longrightarrow>
   runOrReviseFlow (Pick Revise # picks) script key ep sm w =
     (Stop (Exit 0),
      emits (Select (menu_message script) (menu_options script)
             # Text_prompt (T ''What would you like me to change in this script?'') None
             # replicate n (Validation (T ''Please enter a prompt.''))
             @ [Cancel_msg Banner]) (w\<lparr>typed := rest\<rparr>))"
  by (simp add: menu_Revise revisionFlow.simps
      promptForRevision_cancelled [where rest = rest and n = n] emits_norm)

lemma extends_refl [simp]: "extends w w"
  by (simp add: extends_def)

lemma extends_trans: "extends w w' \<Longrightarrow> extends w' w'' \<Longrightarrow> extends w w''"
  by (auto simp: extends_def)

lemma extends_emit: "sound_event e \<Longrightarrow> extends w (emit e w)"
  by (simp add: extends_def)

lemma extends_emit': "sound_event e \<Longrightarrow> extends w w' \<Longrightarrow> extends w (emit e w')"
  by (auto simp: extends_def)

lemma extends_update [simp]:
  "extends w (w'\<lparr>typed := ts\<rparr>) = extends w w'"
  "extends w (w'\<lparr>replies := rs\<rparr>) = extends w w'"
  "extends w (w'\<lparr>infos := is\<rparr>) = extends w w'"
  "extends w (w'\<lparr>execs := xs\<rparr>) = extends w w'"
  by (simp_all add: extends_def)

lemma menu_complete_menu: "menu_complete (menu_message script, menu_options script)"
  by (simp add: menu_complete_def menu_message_def menu_options_def)

lemma sound_simps [simp]:
  "sound_event (Select (menu_message script) (menu_options script))"
  "sound_event (Request r) = prompted r"
  "sound_event Intro" "sound_event (Log_info u)" "sound_event (Text_prompt m i)"
  "sound_event (Validation m)" "sound_event (Cancel_msg m)" "sound_event (Outro m)"
  "sound_event (Spin_start m)" "sound_event (Spin_stop m)" "sound_event (Console_log c)"
  "sound_event Read_info" "sound_event (Exec s)" "sound_event (History s)"
  "sound_event (Clipboard s)"
  by (simp_all add: sound_event_def menu_complete_menu)

lemma p_text_extends: "extends w w0 \<Longrightarrow> extends w (snd (p_text v ts w0))"
proof (induction ts arbitrary: w0)
  case Nil
  then show ?case by simp
next
  case (Cons t ts)
  show ?case
  proof (cases t)
    case (Submit x)
    show ?thesis
    proof (cases "v x")
      case None
      with Submit Cons.prems show ?thesis by simp
    next
      case (Some problem)
      with Submit Cons.prems Cons.IH [of "emit (Validation problem) w0"]
      show ?thesis by (simp add: extends_emit')
    qed
  next
    case Ctrl_C
    with Cons.prems show ?thesis by simp
  qed
qed

lemma send_extends: "prompted r \<Longrightarrow> extends w w0 \<Longrightarrow> extends w (snd (send r w0))"
  by (simp add: send_def extends_emit' split: list.split reply.split)

lemma readInfo_extends: "extends w w0 \<Longrightarrow> extends w (snd (readInfo w0))"
  by (simp add: readInfo_def extends_emit' split: list.split)

lemma runScript_extends: "extends w w0 \<Longrightarrow> extends w (snd (runScript script w0))"
  by (simp add: runScript_def Let_def extends_emit' split: list.split exec_result.split)

lemma getPrompt_extends: "extends w w0 \<Longrightarrow> extends w (snd (getPrompt i w0))"
  using p_text_extends [of w "emit (Text_prompt (T ''What would you like me to do?'') i) w0"
      validate "typed w0"]
  by (auto simp: getPrompt_def extends_emit' split: prod.split option.split text_input.split)

lemma promptForRevision_extends: "extends w w0 \<Longrightarrow> extends w (snd (promptForRevision w0))"
  using p_text_extends [of w
      "emit (Text_prompt (T ''What would you like me to change in this script?'') None) w0"
      validate "typed w0"]
  by (auto simp: promptForRevision_def extends_emit' split: prod.split option.split text_input.split)

lemma p_text_validate_result: "fst (p_text validate ts w) \<noteq> Some (Submit [])"
proof (induction ts arbitrary: w)
  case Nil
  show ?case by simp
next
  case (Cons t ts)
  show ?case
  proof (cases t)
    case (Submit x)
    with Cons show ?thesis by (cases x) simp_all
  next
    case Ctrl_C
    then show ?thesis by simp
  qed
qed

lemma getPrompt_result:
  "fst (getPrompt i w) \<noteq> Ok []" "fst (getPrompt i w) \<noteq> Stop (Throw err)"
  using p_text_validate_result
    [of "typed w" "emit (Text_prompt (T ''What would you like me to do?'') i) w"]
  by (auto simp: getPrompt_def split: prod.split option.split text_input.split)

lemma promptForRevision_result:
  "fst (promptForRevision w) \<noteq> Ok []" "fst (promptForRevision w) \<noteq> Stop (Throw err)"
  using p_text_validate_result
    [of "typed w" "emit (Text_prompt (T ''What would you like me to change in this script?'') None) w"]
  by (auto simp: promptForRevision_def split: prod.split option.split text_input.split)

lemma flows_extend:
  "extends w0 w \<Longrightarrow> extends w0 (snd (runOrReviseFlow picks script key ep sm w))"
  "extends w0 w \<Longrightarrow> extends w0 (snd (explanationFlow picks script key ep sm w))"
  "extends w0 w \<Longrightarrow> extends w0 (snd (revisionFlow picks script key ep sm w))"
proof (induction picks script key ep sm w and picks script key ep sm w
    and picks script key ep sm w
    arbitrary: w0 and w0 and w0 rule: runOrReviseFlow_explanationFlow_revisionFlow.induct)
  case (1 script key apiEndpoint silentMode w)
  then show ?case by (simp add: extends_emit')
next
  case (2 picks script key apiEndpoint silentMode w)
  then show ?case by (simp add: extends_emit')
next
  case (3 answer picks script key apiEndpoint silentMode w)
  define w1 where "w1 = emit (Select (menu_message script) (menu_options script)) w"
  have w1: "extends w0 w1"
    using "3.prems" by (simp add: w1_def extends_emit')
  show ?case
  proof (cases "answer \<in> set (offered script)")
    case False
    with w1 show ?thesis by (simp add: runOrReviseFlow.simps(3) w1_def)
  next
    case True
    show ?thesis
    proof (cases answer)
      case Run
      with True w1 show ?thesis
        by (simp add: runOrReviseFlow.simps(3) w1_def [symmetric] runScript_extends)
    next
      case Edit
      have "extends w0 (snd (p_text (\<lambda>value. None) (typed w1)
          (emit (Text_prompt (T ''you can edit script here:'') (Some script)) w1)))"
        using w1 by (simp add: p_text_extends extends_emit')
      with Edit True show ?thesis
        by (auto simp: runOrReviseFlow.simps(3) w1_def [symmetric] runScript_extends
            split: prod.split option.split text_input.split)
    next
      case Explain
      with True w1 "3.IH"(1) [OF w1_def True Explain w1] show ?thesis
        by (simp add: runOrReviseFlow.simps(3) w1_def [symmetric])
    next
      case Revise
      with True w1 "3.IH"(2) [OF w1_def True Revise w1] show ?thesis
        by (simp add: runOrReviseFlow.simps(3) w1_def [symmetric])
    next
      case Copy
      with True w1 show ?thesis
        by (simp add: runOrReviseFlow.simps(3) w1_def [symmetric] extends_emit')
    next
      case Cancel
      with True w1 show ?thesis
        by (simp add: runOrReviseFlow.simps(3) w1_def [symmetric] extends_emit')
    qed
  qed
next
  case (4 picks script key apiEndpoint silentMode w)
  obtain r w1 where ri: "readInfo (emit (Spin_start (T ''Getting explanation...'')) w) = (r, w1)"
    by fastforce
  have e1: "extends w0 w1"
    using readInfo_extends [of w0 "emit (Spin_start (T ''Getting explanation...'')) w"] ri "4.prems"
    by (simp add: extends_emit')
  show ?case
  proof (cases r)
    case (Stop s)
    with ri e1 show ?thesis by (simp add: explanationFlow.simps)
  next
    case r: (Ok info)
    show ?thesis
    proof (cases "info = []")
      case False
      from "4.IH"(2) [OF ri [symmetric] r False e1] ri r False show ?thesis
        by (simp add: explanationFlow.simps)
    next
      case True
      obtain r2 w2 where se: "send (Explanation script key apiEndpoint) w1 = (r2, w2)"
        by fastforce
      have e2: "extends w0 w2"
        using send_extends [of "Explanation script key apiEndpoint" w0 w1] se e1
        by (simp add: prompted_def)
      show ?thesis
      proof (cases r2)
        case (Stop s)
        with ri r True se e2 show ?thesis by (simp add: explanationFlow.simps)
      next
        case r2: (Ok readExplanation)
        show ?thesis
        proof (cases "drain readExplanation")
          case (Stop s)
          with ri r True se r2 e2 show ?thesis
            by (simp add: explanationFlow.simps extends_emit')
        next
          case d: (Ok explanation)
          have e3: "extends w0 (emit (Console_log Dot) (emit (Console_log Blank)
              (emit (Console_log Blank) (emit (Spin_stop (Heading ''Explanation'')) w2))))"
            using e2 by (simp add: extends_emit')
          from "4.IH"(1) [OF ri [symmetric] r True se [symmetric] r2 refl d e3] ri r True se r2 d
          show ?thesis by (simp add: explanationFlow.simps)
        qed
      qed
    qed
  qed
next
  case (5 picks currentScript key apiEndpoint silentMode w)
  obtain r w1 where pr: "promptForRevision w = (r, w1)"
    by fastforce
  have e1: "extends w0 w1"
    using promptForRevision_extends [of w0 w] pr "5.prems" by simp
  show ?case
  proof (cases r)
    case (Stop s)
    with pr e1 show ?thesis by (simp add: revisionFlow.simps)
  next
    case r: (Ok revision)
    have "revision \<noteq> []"
      using promptForRevision_result(1) [of w] pr r by auto
    obtain r2 w2 where se: "send (Revision revision currentScript key apiEndpoint)
        (emit (Spin_start (T ''Loading...'')) w1) = (r2, w2)"
      by fastforce
    have e2: "extends w0 w2"
      using send_extends [of "Revision revision currentScript key apiEndpoint" w0
          "emit (Spin_start (T ''Loading...'')) w1"] se e1 \<open>revision \<noteq> []\<close>
      by (simp add: prompted_def extends_emit')
    show ?thesis
    proof (cases r2)
      case (Stop s)
      with pr r se e2 show ?thesis by (simp add: revisionFlow.simps)
    next
      case r2: (Ok readScript)
      show ?thesis
      proof (cases "drain readScript")
        case (Stop s)
        with pr r se r2 e2 show ?thesis
          by (simp add: revisionFlow.simps extends_emit')
      next
        case d: (Ok script)
        have e3: "extends w0 (emit (Console_log Dot) (emit (Console_log Blank)
            (emit (Console_log Blank) (emit (Console_log Blank)
              (emit (Spin_stop (Heading ''Your new script'')) w2)))))"
          using e2 by (simp add: extends_emit')
        from "5.IH" [OF pr [symmetric] r se [symmetric] r2 refl d e3] pr r se r2 d
        show ?thesis by (simp add: revisionFlow.simps)
      qed
    qed
  qed
qed

lemma getPrompt_pair: "getPrompt i w1 = (r, w2) \<Longrightarrow> extends w w1 \<Longrightarrow> extends w w2"
  using getPrompt_extends [of w w1 i] by simp

lemma getPrompt_Ok: "getPrompt i w1 = (Ok v, w2) \<Longrightarrow> v \<noteq> []"
  using getPrompt_result(1) [of i w1] by auto

lemma send_pair: "send r w1 = (x, w2) \<Longrightarrow> prompted r \<Longrightarrow> extends w w1 \<Longrightarrow> extends w w2"
  using send_extends [of r w w1] by simp

lemma prompt_extends: "extends w (snd (prompt picks usePrompt silentMode cfg w))"
proof (cases cfg)
  case (Inl e)
  then show ?thesis by (simp add: prompt_def)
next
  case (Inr c)
  define w1 where "w1 = emit (Log_info (case usePrompt of None \<Rightarrow> [] | Some u \<Rightarrow> u)) (emit Intro w)"
  define first where "first = (case usePrompt of
      None \<Rightarrow> getPrompt None w1
    | Some u \<Rightarrow> if u = [] then getPrompt None w1 else (Ok u, w1))"
  have w1: "extends w w1"
    by (simp add: w1_def extends_emit')
  obtain r w2 where first: "first = (r, w2)"
    by fastforce
  have e2: "extends w w2"
    using first w1 by (auto simp: first_def split: option.splits if_splits dest: getPrompt_pair)
  show ?thesis
  proof (cases r)
    case (Stop s)
    with Inr first e2 show ?thesis
      by (simp add: prompt_def Let_def w1_def [symmetric] first_def [symmetric])
  next
    case r: (Ok thePrompt)
    have nonempty: "thePrompt \<noteq> []"
      using first r by (auto simp: first_def split: option.splits if_splits dest: getPrompt_Ok)
    obtain r3 w3 where se: "send (Script_and_info thePrompt (OPENAI_KEY c) (MODEL c)
        (OPENAI_API_ENDPOINT c)) (emit (Spin_start (T ''Loading...'')) w2) = (r3, w3)"
      by fastforce
    have e3: "extends w w3"
      using send_pair [OF se] nonempty e2 by (simp add: prompted_def extends_emit')
    show ?thesis
    proof (cases r3)
      case (Stop s)
      with Inr first r se e3 show ?thesis
        by (simp add: prompt_def Let_def w1_def [symmetric] first_def [symmetric])
    next
      case r3: (Ok readScript)
      show ?thesis
      proof (cases "drain readScript")
        case (Stop s)
        with Inr first r se r3 e3 show ?thesis
          by (simp add: prompt_def Let_def w1_def [symmetric] first_def [symmetric])
      next
        case d: (Ok script)
        have e4: "extends w (emit (Spin_stop (Arrow script)) w3)"
          using e3 by (simp add: extends_emit')
        from Inr first r se r3 d e4 flows_extend(1) [OF e4] show ?thesis
          by (simp add: prompt_def Let_def w1_def [symmetric] first_def [symmetric] extends_emit')
      qed
    qed
  qed
qed

lemma extends_kept: "extends w w' \<Longrightarrow> take (length (trace w)) (trace w') = trace w"
  by (auto simp: extends_def)

lemma sound_requests: "list_all sound_event es \<Longrightarrow> list_all prompted (requests_of es)"
  by (induction es) (auto simp: requests_of_def sound_event_def split: event.splits)

lemma sound_menus: "list_all sound_event es \<Longrightarrow> list_all menu_complete (menus_of es)"
  by (induction es) (auto simp: menus_of_def sound_event_def split: event.splits)

lemma extends_requests: "extends w w' \<Longrightarrow> list_all prompted (requests_of (emitted w w'))"
  by (auto simp: extends_def emitted_def sound_requests)

lemma extends_menus: "extends w w' \<Longrightarrow> list_all menu_complete (menus_of (emitted w w'))"
  by (auto simp: extends_def emitted_def sound_menus)

lemma flow_grows:
  "\<exists>es. trace (snd (runOrReviseFlow picks script key ep sm w)) =
     trace w @ Select (menu_message script) (menu_options script) # es"
proof (cases picks)
  case Nil
  then show ?thesis by simp
next
  case (Cons a rest)
  define w1 where "w1 = emit (Select (menu_message script) (menu_options script)) w"
  have "extends w1 (snd (runOrReviseFlow picks script key ep sm w))"
  proof (cases a)
    case Esc
    with Cons show ?thesis by (simp add: w1_def)
  next
    case (Pick answer)
    show ?thesis
    proof (cases "answer \<in> set (offered script)")
      case False
      with Cons Pick show ?thesis by (simp add: runOrReviseFlow.simps(3) w1_def)
    next
      case True
      have "extends w1 (snd (p_text (\<lambda>value. None) (typed w1)
          (emit (Text_prompt (T ''you can edit script here:'') (Some script)) w1)))"
        by (simp add: p_text_extends extends_emit')
      with Cons Pick True show ?thesis
        by (cases answer)
          (auto simp: runOrReviseFlow.simps(3) w1_def [symmetric] runScript_extends flows_extend
            extends_emit' split: prod.split option.split text_input.split)
    qed
  qed
  then show ?thesis
    by (auto simp: extends_def w1_def)
qed

lemma prompt_first_events:
  assumes "u \<noteq> []"
  shows "\<exists>es. trace (snd (prompt picks (Some u) silentMode (Inr c) w)) =
     trace w @ [Intro, Log_info u, Spin_start (T ''Loading...''),
       Request (Script_and_info u (OPENAI_KEY c) (MODEL c) (OPENAI_API_ENDPOINT c))] @ es"
proof (cases "replies w")
  case Nil
  with assms show ?thesis by (simp add: prompt_def Let_def send_def)
next
  case (Cons r rs)
  show ?thesis
  proof (cases r)
    case Refused
    with Cons assms show ?thesis by (simp add: prompt_def Let_def send_def)
  next
    case (Accepted s)
    show ?thesis
    proof (cases s)
      case Broken
      with Cons Accepted assms show ?thesis by (simp add: prompt_def Let_def send_def drain_def)
    next
      case (Full script)
      define w4 where "w4 = emit (Spin_stop (Arrow script))
        ((emit (Request (Script_and_info u (OPENAI_KEY c) (MODEL c) (OPENAI_API_ENDPOINT c)))
           (emit (Spin_start (T ''Loading...'')) (emit (Log_info u) (emit Intro w))))
         \<lparr>replies := rs\<rparr>)"
      obtain es where es: "trace (snd (runOrReviseFlow picks script (OPENAI_KEY c)
          (OPENAI_API_ENDPOINT c) (truthy silentMode) w4)) =
          trace w4 @ Select (menu_message script) (menu_options script) # es"
        using flow_grows by blast
      have "prompt picks (Some u) silentMode (Inr c) w =
          (if truthy silentMode \<or> SILENT_MODE c then (Stop (Exit 0), emit (Outro Banner) w4)
           else runOrReviseFlow picks script (OPENAI_KEY c) (OPENAI_API_ENDPOINT c)
                  (truthy silentMode) w4)"
        using Cons Accepted Full assms
        by (simp add: prompt_def Let_def send_def drain_def w4_def)
      with es show ?thesis
        by (cases "truthy silentMode \<or> SILENT_MODE c") (simp_all add: w4_def)
    qed
  qed
qed

lemma menus_of_simps [simp]:
  "menus_of [] = []"
  "menus_of (es @ es') = menus_of es @ menus_of es'"
  "menus_of (Select m os # es) = (m, os) # menus_of es"
  "menus_of (Intro # es) = menus_of es"
  "menus_of (Log_info u # es) = menus_of es"
  "menus_of (Text_prompt m i # es) = menus_of es"
  "menus_of (Validation m # es) = menus_of es"
  "menus_of (Cancel_msg m # es) = menus_of es"
  "menus_of (Outro m # es) = menus_of es"
  "menus_of (Spin_start m # es) = menus_of es"
  "menus_of (Spin_stop m # es) = menus_of es"
  "menus_of (Request r # es) = menus_of es"
  by (simp_all add: menus_of_def)

lemma p_text_menus: "menus_of (trace (snd (p_text v ts w))) = menus_of (trace w)"
proof (induction ts arbitrary: w)
  case Nil
  show ?case by simp
next
  case (Cons t ts)
  show ?case
  proof (cases t)
    case (Submit x)
    with Cons show ?thesis by (cases "v x") simp_all
  next
    case Ctrl_C
    then show ?thesis by simp
  qed
qed

lemma getPrompt_menus: "getPrompt i w = (r, w') \<Longrightarrow> menus_of (trace w') = menus_of (trace w)"
  using p_text_menus [of validate "typed w" "emit (Text_prompt (T ''What would you like me to do?'') i) w"]
  by (auto simp: getPrompt_def split: prod.splits option.splits text_input.splits)

lemma prompt_silent:
  assumes "truthy silentMode \<or> SILENT_MODE c"
  shows "menus_of (trace (snd (prompt picks usePrompt silentMode (Inr c) w))) = menus_of (trace w)
    \<and> fst (prompt picks usePrompt silentMode (Inr c) w) \<noteq> Ok ()"
proof -
  define w1 where "w1 = emit (Log_info (case usePrompt of None \<Rightarrow> [] | Some u \<Rightarrow> u)) (emit Intro w)"
  define first where "first = (case usePrompt of
      None \<Rightarrow> getPrompt None w1
    | Some u \<Rightarrow> if u = [] then getPrompt None w1 else (Ok u, w1))"
  obtain r w2 where first: "first = (r, w2)"
    by fastforce
  have m2: "menus_of (trace w2) = menus_of (trace w)"
    using first
    by (auto simp: first_def w1_def split: option.splits if_splits dest: getPrompt_menus)
  show ?thesis
  proof (cases r)
    case (Stop s)
    with first m2 show ?thesis
      by (simp add: prompt_def Let_def w1_def [symmetric] first_def [symmetric])
  next
    case (Ok thePrompt)
    with first m2 assms show ?thesis
      by (simp add: prompt_def Let_def w1_def [symmetric] first_def [symmetric] send_def drain_def
          split: list.split reply.split stream.split)
  qed
qed

lemma prompt_silent_usePrompt:
  assumes "truthy silentMode \<or> SILENT_MODE c" and "u \<noteq> []"
    and "replies w = Accepted (Full script) # rs"
  shows "prompt picks (Some u) silentMode (Inr c) w =
     (Stop (Exit 0),
      emits [Intro, Log_info u, Spin_start (T ''Loading...''),
             Request (Script_and_info u (OPENAI_KEY c) (MODEL c) (OPENAI_API_ENDPOINT c)),
             Spin_stop (Arrow script), Outro Banner] (w\<lparr>replies := rs\<rparr>))"
  using assms by (simp add: prompt_def Let_def send_def drain_def emits_norm)

lemma prompt_silent_typed:
  assumes "truthy silentMode \<or> SILENT_MODE c"
    and "typed w = replicate n (Submit []) @ Submit u # ts" and "u \<noteq> []"
    and "replies w = Accepted (Full script) # rs"
  shows "prompt picks None silentMode (Inr c) w =
     (Stop (Exit 0),
      emits ([Intro, Log_info [], Text_prompt (T ''What would you like me to do?'') None]
             @ replicate n (Validation (T ''Please enter a prompt.''))
             @ [Spin_start (T ''Loading...''),
                Request (Script_and_info u (OPENAI_KEY c) (MODEL c) (OPENAI_API_ENDPOINT c)),
                Spin_stop (Arrow script), Outro Banner]) (w\<lparr>typed := ts, replies := rs\<rparr>))"
  using assms
  by (simp add: prompt_def Let_def send_def drain_def emits_norm
      getPrompt_submitted [where n = n and v = u and rest = ts])

lemma prompt_waiting:
  assumes "typed w = replicate n (Submit [])"
  shows "prompt picks None silentMode (Inr c) w =
     (Stop Blocked,
      emits ([Intro, Log_info [], Text_prompt (T ''What would you like me to do?'') None]
             @ replicate n (Validation (T ''Please enter a prompt.''))) (w\<lparr>typed := []\<rparr>))"
  using assms
  by (simp add: prompt_def Let_def emits_norm getPrompt_waiting [where n = n])

lemma revision_waiting:
  assumes "typed w = replicate n (Submit [])"
  shows "runOrReviseFlow (Pick Revise # picks) script key ep sm w =
     (Stop Blocked,
      emits (Select (menu_message script) (menu_options script)
             # Text_prompt (T ''What would you like me to change in this script?'') None
             # replicate n (Validation (T ''Please enter a prompt.''))) (w\<lparr>typed := []\<rparr>))"
  using assms
  by (simp add: menu_Revise revisionFlow.simps emits_norm promptForRevision_waiting [where n = n])

lemma prompt_blocked_usePrompt:
  assumes "u \<noteq> []" and "replies w = []"
  shows "prompt picks (Some u) silentMode (Inr c) w =
     (Stop Blocked,
      emits [Intro, Log_info u, Spin_start (T ''Loading...''),
             Request (Script_and_info u (OPENAI_KEY c) (MODEL c) (OPENAI_API_ENDPOINT c))] w)"
  using assms by (simp add: prompt_def Let_def send_def emits_norm)

lemma prompt_empty_usePrompt:
  "prompt picks (Some []) silentMode cfg w = prompt picks None silentMode cfg w"
  by (cases cfg) (simp_all add: prompt_def Let_def)

subsection \<open>The claims\<close>

text \<open>
  Claim C1, as the program has it.  A revision round replaces the current script by the
  new one and hands the \<open>readInfo\<close> accessor on as it is: nothing of the explanation is
  discarded.  When \<open>Explain\<close> is chosen next, the accessor is asked first; if it gives a
  text that is not empty, no explanation is requested from the backend, and only if it
  gives the empty text is an explanation of the new script requested.
\<close>

theorem revise_keeps_readInfo:
  assumes "typed w = Submit feedback # ts" and "feedback \<noteq> []"
    and "replies w = Accepted (Full script') # rs" and "infos w = Full info # rest"
  shows "(info \<noteq> [] \<longrightarrow>
      runOrReviseFlow (Pick Revise # Pick Explain # picks) script key ep sm w =
        runOrReviseFlow picks script' key ep sm
         (emits [Select (menu_message script) (menu_options script),
               Text_prompt (T ''What would you like me to change in this script?'') None,
               Spin_start (T ''Loading...''), Request (Revision feedback script key ep),
               Spin_stop (Heading ''Your new script''), Console_log Blank, Console_log Blank,
               Console_log Blank, Console_log Dot,
               Select (menu_message script') (menu_options script'),
               Spin_start (T ''Getting explanation...''), Read_info]
            (w\<lparr>typed := ts, replies := rs, infos := rest\<rparr>)))
   \<and> (info = [] \<and> rs = Accepted (Full explanation) # rs' \<longrightarrow>
      runOrReviseFlow (Pick Revise # Pick Explain # picks) script key ep sm w =
        runOrReviseFlow picks script' key ep sm
         (emits [Select (menu_message script) (menu_options script),
               Text_prompt (T ''What would you like me to change in this script?'') None,
               Spin_start (T ''Loading...''), Request (Revision feedback script key ep),
               Spin_stop (Heading ''Your new script''), Console_log Blank, Console_log Blank,
               Console_log Blank, Console_log Dot,
               Select (menu_message script') (menu_options script'),
               Spin_start (T ''Getting explanation...''), Read_info,
               Request (Explanation script' key ep), Spin_stop (Heading ''Explanation''),
               Console_log Blank, Console_log Blank, Console_log Dot]
            (w\<lparr>typed := ts, infos := rest, replies := rs'\<rparr>)))"
  using assms
  by (simp add: revise_round [where script' = script']
      explain_cached [where info = info and rest = rest]
      explain_fetched [where explanation = explanation and rest = rest and rs = rs']
      emits_norm)

theorem revise_keeps_readInfo_witness:
  "typed w_revise = Submit hi # [] \<and> hi \<noteq> []
   \<and> replies w_revise = Accepted (Full ls_a) # [Accepted (Full hi)]
   \<and> infos w_revise = Full hi # []
   \<and> requests_of (trace (snd (runOrReviseFlow [Pick Revise, Pick Explain, Esc] ls k0 e0 False
         w_revise))) = [Revision hi ls k0 e0]
   \<and> requests_of (trace (snd (runOrReviseFlow [Pick Revise, Pick Explain, Esc] ls k0 e0 False
         (w_revise\<lparr>infos := [Full []]\<rparr>)))) = [Revision hi ls k0 e0, Explanation ls_a k0 e0]"
proof -
  have h1: "typed w_revise = Submit hi # []" and h2: "hi \<noteq> []"
    and h3: "replies w_revise = Accepted (Full ls_a) # [Accepted (Full hi)]"
    and h4: "infos w_revise = Full hi # []"
    by (simp_all add: w_revise_def)
  have g1: "typed (w_revise\<lparr>infos := [Full []]\<rparr>) = Submit hi # []"
    and g3: "replies (w_revise\<lparr>infos := [Full []]\<rparr>) = Accepted (Full ls_a) # [Accepted (Full hi)]"
    and g4: "infos (w_revise\<lparr>infos := [Full []]\<rparr>) = Full [] # []"
    by (simp_all add: w_revise_def)
  from revise_keeps_readInfo [where picks = "[Esc]" and script = ls and key = k0 and ep = e0
        and sm = False, OF h1 h2 h3 h4]
    revise_keeps_readInfo [where picks = "[Esc]" and script = ls and key = k0 and ep = e0
        and sm = False and explanation = hi and rs' = "[]", OF g1 h2 g3 g4]
    h1 h2 h3 h4
  show ?thesis
    by (simp add: requests_of_def w_revise_def)
qed

text \<open>
  The claim as it is written (after every revision the next \<open>Explain\<close> requests a fresh
  explanation) fails: with a script \<open>ls\<close>, the feedback \<open>hi\<close>, the new script \<open>ls -a\<close>
  and an accessor that gives the text \<open>hi\<close>, the user revises, asks for an explanation
  and leaves the menu; the only request of the session is the revision.
\<close>

theorem revise_then_explain_counterexample:
  "requests_of (trace (snd (runOrReviseFlow [Pick Revise, Pick Explain, Esc] ls k0 e0 False
      w_revise))) = [Revision hi ls k0 e0]"
  by (simp add: w_revise_def requests_of_def
      revise_round [where ts = "[]" and rs = "[Accepted (Full hi)]" and script' = ls_a
        and feedback = hi]
      explain_cached [where rest = "[]" and info = hi])

text \<open>
  Claim C2.  For the empty script the menu is framed as \<open>Revise this script?\<close> and has
  neither \<open>Run\<close> nor \<open>Edit\<close>; for every script the menu has \<open>Explain\<close>, \<open>Revise\<close>,
  \<open>Copy\<close> and \<open>Cancel\<close>.  The menu that \<open>runOrReviseFlow\<close> renders for a script is this
  one, and every menu rendered in a session is complete.
\<close>

theorem empty_script_menu:
  "menu_message [] = T ''Revise this script?''
   \<and> offered [] = [Explain, Revise, Copy, Cancel]
   \<and> Run \<notin> set (offered []) \<and> Edit \<notin> set (offered [])
   \<and> Explain \<in> set (offered script) \<and> Revise \<in> set (offered script)
   \<and> Copy \<in> set (offered script) \<and> Cancel \<in> set (offered script)
   \<and> (\<exists>es. trace (snd (runOrReviseFlow picks script key ep sm w)) =
         trace w @ Select (menu_message script) (menu_options script) # es)
   \<and> take (length (trace w)) (trace (snd (prompt picks usePrompt silentMode cfg w))) = trace w
   \<and> list_all menu_complete
        (menus_of (emitted w (snd (prompt picks usePrompt silentMode cfg w))))"
proof -
  have "emptyScript []"
    by (simp add: emptyScript_def trim_def)
  then show ?thesis
    using flow_grows [of picks script key ep sm w]
      extends_kept [OF prompt_extends, of w picks usePrompt silentMode cfg]
      extends_menus [OF prompt_extends, of w picks usePrompt silentMode cfg]
    by (simp add: menu_message_def offered_emptyScript offered_always)
qed

theorem empty_script_menu_witness:
  "offered [] = [Explain, Revise, Copy, Cancel]
   \<and> Explain \<in> set (offered ls) \<and> Cancel \<in> set (offered ls)
   \<and> list_all menu_complete (menus_of (emitted world0
        (snd (prompt [Pick Explain, Esc] (Some hi) None (Inr config0)
           (world0\<lparr>replies := [Accepted (Full [])], infos := [Full hi]\<rparr>)))))"
  using empty_script_menu [where script = ls and picks = "[Pick Explain, Esc]"
      and usePrompt = "Some hi" and silentMode = None and cfg = "Inr config0"
      and w = "world0\<lparr>replies := [Accepted (Full [])], infos := [Full hi]\<rparr>"]
  by (simp add: emitted_def)

text \<open>
  Claim C3.  When the \<open>silentMode\<close> flag or the \<open>SILENT_MODE\<close> setting is on, no menu
  is rendered in the session and \<open>prompt\<close> does not return: once the first script has
  been generated and shown, the closing line is written and the process exits with
  status 0, whether the prompt came as an argument or was typed.
\<close>

theorem silent_mode_skips_menu:
  assumes "truthy silentMode \<or> SILENT_MODE c"
  shows "menus_of (trace (snd (prompt picks usePrompt silentMode (Inr c) w))) = menus_of (trace w)
    \<and> fst (prompt picks usePrompt silentMode (Inr c) w) \<noteq> Ok ()
    \<and> (u \<noteq> [] \<and> replies w = Accepted (Full script) # rs \<longrightarrow>
         prompt picks (Some u) silentMode (Inr c) w =
           (Stop (Exit 0),
            emits [Intro, Log_info u, Spin_start (T ''Loading...''),
                   Request (Script_and_info u (OPENAI_KEY c) (MODEL c) (OPENAI_API_ENDPOINT c)),
                   Spin_stop (Arrow script), Outro Banner] (w\<lparr>replies := rs\<rparr>)))
    \<and> (typed w = replicate n (Submit []) @ Submit u # ts \<and> u \<noteq> []
        \<and> replies w = Accepted (Full script) # rs \<longrightarrow>
         prompt picks None silentMode (Inr c) w =
           (Stop (Exit 0),
            emits ([Intro, Log_info [], Text_prompt (T ''What would you like me to do?'') None]
                   @ replicate n (Validation (T ''Please enter a prompt.''))
                   @ [Spin_start (T ''Loading...''),
                      Request (Script_and_info u (OPENAI_KEY c) (MODEL c) (OPENAI_API_ENDPOINT c)),
                      Spin_stop (Arrow script), Outro Banner])
              (w\<lparr>typed := ts, replies := rs\<rparr>)))"
  using prompt_silent [OF assms, of picks usePrompt w]
    prompt_silent_usePrompt [OF assms, of u w script rs picks]
    prompt_silent_typed [OF assms, of w n u ts script rs picks]
  by simp

theorem silent_mode_skips_menu_witness:
  "truthy (Some True) \<and> SILENT_MODE (config0\<lparr>SILENT_MODE := True\<rparr>)
   \<and> prompt [Pick Run] (Some hi) (Some True) (Inr config0)
        (world0\<lparr>replies := [Accepted (Full ls)], execs := [Succeeded]\<rparr>) =
       (Stop (Exit 0),
        emits [Intro, Log_info hi, Spin_start (T ''Loading...''),
               Request (Script_and_info hi k0 hi e0), Spin_stop (Arrow ls), Outro Banner]
          (world0\<lparr>replies := [Accepted (Full ls)], execs := [Succeeded]\<rparr>
             \<lparr>replies := []\<rparr>))
   \<and> prompt [Pick Run] None None (Inr (config0\<lparr>SILENT_MODE := True\<rparr>))
        (world0\<lparr>typed := [Submit [], Submit hi], replies := [Accepted (Full ls)]\<rparr>) =
       (Stop (Exit 0),
        emits [Intro, Log_info [], Text_prompt (T ''What would you like me to do?'') None,
               Validation (T ''Please enter a prompt.''), Spin_start (T ''Loading...''),
               Request (Script_and_info hi k0 hi e0), Spin_stop (Arrow ls), Outro Banner]
          (world0\<lparr>typed := [Submit [], Submit hi], replies := [Accepted (Full ls)]\<rparr>
             \<lparr>typed := [], replies := []\<rparr>))
   \<and> menus_of (trace (snd (prompt [Pick Run] None None
        (Inr (config0\<lparr>SILENT_MODE := True\<rparr>))
        (world0\<lparr>typed := [Submit [], Submit hi], replies := [Accepted (Full ls)]\<rparr>)))) = []"
proof -
  have h1: "truthy (Some True) \<or> SILENT_MODE config0"
    by (simp add: truthy_def)
  have h2: "truthy None \<or> SILENT_MODE (config0\<lparr>SILENT_MODE := True\<rparr>)"
    by simp
  from silent_mode_skips_menu [OF h1, where picks = "[Pick Run]" and usePrompt = "Some hi"
      and w = "world0\<lparr>replies := [Accepted (Full ls)], execs := [Succeeded]\<rparr>"
      and u = hi and script = ls and rs = "[]"]
    silent_mode_skips_menu [OF h2, where picks = "[Pick Run]" and usePrompt = None
      and w = "world0\<lparr>typed := [Submit [], Submit hi], replies := [Accepted (Full ls)]\<rparr>"
      and n = "Suc 0" and u = hi and ts = "[]" and script = ls and rs = "[]"]
  show ?thesis
    by (simp add: truthy_def config0_def)
qed




text \<open>
  Claim C5, as the program has it.  \<open>Explain\<close> asks the \<open>readInfo\<close> accessor.  If it
  gives a text that is not empty, no request is sent and the menu is entered again with
  the same script.  If it gives the empty text, one explanation of the current script is
  requested and shown, and the menu is entered again; the explanation is not kept, so
  each such \<open>Explain\<close> sends its own request.  If the accessor fails or does not answer,
  no request is sent.
\<close>

theorem explain_requests_only_without_info:
  "(infos w = Full info # rest \<and> info \<noteq> [] \<longrightarrow>
      runOrReviseFlow (Pick Explain # picks) script key ep sm w =
        runOrReviseFlow picks script key ep sm
         (emits [Select (menu_message script) (menu_options script),
                 Spin_start (T ''Getting explanation...''), Read_info]
            (w\<lparr>infos := rest\<rparr>)))
   \<and> (infos w = Full [] # rest \<and> replies w = Accepted (Full explanation) # rs \<longrightarrow>
      runOrReviseFlow (Pick Explain # picks) script key ep sm w =
        runOrReviseFlow picks script key ep sm
         (emits [Select (menu_message script) (menu_options script),
                 Spin_start (T ''Getting explanation...''), Read_info,
                 Request (Explanation script key ep), Spin_stop (Heading ''Explanation''),
                 Console_log Blank, Console_log Blank, Console_log Dot]
            (w\<lparr>infos := rest, replies := rs\<rparr>)))
   \<and> (infos w = Broken # rest \<longrightarrow>
      runOrReviseFlow (Pick Explain # picks) script key ep sm w =
        (Stop (Throw Stream_error),
         emits [Select (menu_message script) (menu_options script),
                Spin_start (T ''Getting explanation...''), Read_info]
            (w\<lparr>infos := rest\<rparr>)))
   \<and> (infos w = [] \<longrightarrow>
      runOrReviseFlow (Pick Explain # picks) script key ep sm w =
        (Stop Blocked,
         emits [Select (menu_message script) (menu_options script),
                Spin_start (T ''Getting explanation...''), Read_info] w))"
  by (simp add: explain_cached [where info = info and rest = rest]
      explain_fetched [where explanation = explanation and rest = rest and rs = rs]
      explain_broken [where rest = rest] explain_unanswered)

theorem explain_requests_only_without_info_witness:
  "infos (world0\<lparr>infos := [Full hi]\<rparr>) = Full hi # [] \<and> hi \<noteq> []
   \<and> infos w_explain = Full [] # [Full []]
   \<and> replies w_explain = Accepted (Full hi) # [Accepted (Full hi)]
   \<and> infos (world0\<lparr>infos := [Broken]\<rparr>) = Broken # [] \<and> infos world0 = []
   \<and> requests_of (trace (snd (runOrReviseFlow [Pick Explain, Esc] ls k0 e0 False
         (world0\<lparr>infos := [Full hi]\<rparr>)))) = []
   \<and> requests_of (trace (snd (runOrReviseFlow [Pick Explain, Esc] ls k0 e0 False w_explain))) =
        [Explanation ls k0 e0]
   \<and> fst (runOrReviseFlow [Pick Explain, Esc] ls k0 e0 False (world0\<lparr>infos := [Broken]\<rparr>)) =
        Stop (Throw Stream_error)
   \<and> fst (runOrReviseFlow [Pick Explain, Esc] ls k0 e0 False world0) = Stop Blocked"
  using explain_requests_only_without_info [where w = "world0\<lparr>infos := [Full hi]\<rparr>"
      and info = hi and rest = "[]" and picks = "[Esc]" and script = ls and key = k0 and ep = e0
      and sm = False]
    explain_requests_only_without_info [where w = w_explain and rest = "[Full []]"
      and explanation = hi and rs = "[Accepted (Full hi)]" and picks = "[Esc]" and script = ls
      and key = k0 and ep = e0 and sm = False]
    explain_requests_only_without_info [where w = "world0\<lparr>infos := [Broken]\<rparr>"
      and rest = "[]" and picks = "[Esc]" and script = ls and key = k0 and ep = e0 and sm = False]
    explain_requests_only_without_info [where w = world0 and picks = "[Esc]" and script = ls
      and key = k0 and ep = e0 and sm = False]
  by (simp add: w_explain_def requests_of_def)

text \<open>
  The last sentence of the claim as it is written (within one version of the script,
  \<open>Explain\<close> is idempotent with respect to backend calls) fails: with an accessor that
  gives the empty text, choosing \<open>Explain\<close> twice for the same script sends two requests.
\<close>

theorem explain_twice_counterexample:
  "requests_of (trace (snd (runOrReviseFlow [Pick Explain, Pick Explain, Esc] ls k0 e0 False w_explain))) =
     [Explanation ls k0 e0, Explanation ls k0 e0]"
  by (simp add: w_explain_def requests_of_def
      explain_fetched [where rest = "[Full []]" and rs = "[Accepted (Full hi)]" and explanation = hi]
      explain_fetched [where rest = "[]" and rs = "[]" and explanation = hi])

text \<open>
  Claim C6.  \<open>runScript\<close> never ends in an exception: it returns once the subshell has
  ended, however it ended.  It runs the script it was given, and it appends the script
  to the shell history exactly when the subshell succeeded.
\<close>

theorem runScript_swallows_errors:
  "fst (runScript script w) \<noteq> Stop (Throw err)
   \<and> fst (runScript script w) = (if execs w = [] then Stop Blocked else Ok ())
   \<and> executions_of (trace (snd (runScript script w))) = executions_of (trace w) @ [script]
   \<and> history_of (trace (snd (runScript script w))) =
       history_of (trace w) @ (if take 1 (execs w) = [Succeeded] then [script] else [])"
  by (simp add: runScript_def Let_def executions_of_def history_of_def
      split: list.split exec_result.split)

theorem runScript_swallows_errors_witness:
  "fst (runScript ls (world0\<lparr>execs := [Spawn_failed]\<rparr>)) = Ok ()
   \<and> history_of (trace (snd (runScript ls (world0\<lparr>execs := [Spawn_failed]\<rparr>)))) = []
   \<and> history_of (trace (snd (runScript ls (world0\<lparr>execs := [Nonzero_exit]\<rparr>)))) = []
   \<and> history_of (trace (snd (runScript ls (world0\<lparr>execs := [Succeeded]\<rparr>)))) = [ls]"
  using runScript_swallows_errors [of ls "world0\<lparr>execs := [Spawn_failed]\<rparr>"]
    runScript_swallows_errors [of ls "world0\<lparr>execs := [Nonzero_exit]\<rparr>"]
    runScript_swallows_errors [of ls "world0\<lparr>execs := [Succeeded]\<rparr>"]
  by (simp add: history_of_def)

text \<open>
  Claim C7.  Empty submissions at the first prompt or at the revision prompt each show
  \<open>Please enter a prompt.\<close> and leave the input open, and no request is sent; the first
  submission that is not empty is what the prompt returns.  Neither prompt ever returns
  the empty string or ends in an exception, and no session ever sends a generation or
  revision request made from an empty text.
\<close>

theorem empty_prompt_rejected:
  "(typed w = replicate n (Submit []) \<longrightarrow>
      getPrompt i w =
        (Stop Blocked,
         emits (Text_prompt (T ''What would you like me to do?'') i
                # replicate n (Validation (T ''Please enter a prompt.''))) (w\<lparr>typed := []\<rparr>))
    \<and> prompt picks None silentMode (Inr c) w =
        (Stop Blocked,
         emits ([Intro, Log_info [], Text_prompt (T ''What would you like me to do?'') None]
                @ replicate n (Validation (T ''Please enter a prompt.''))) (w\<lparr>typed := []\<rparr>))
    \<and> runOrReviseFlow (Pick Revise # picks) script key ep sm w =
        (Stop Blocked,
         emits (Select (menu_message script) (menu_options script)
                # Text_prompt (T ''What would you like me to change in this script?'') None
                # replicate n (Validation (T ''Please enter a prompt.''))) (w\<lparr>typed := []\<rparr>)))
   \<and> (typed w = replicate n (Submit []) @ Submit v # rest \<and> v \<noteq> [] \<longrightarrow>
      getPrompt i w =
        (Ok v,
         emits (Text_prompt (T ''What would you like me to do?'') i
                # replicate n (Validation (T ''Please enter a prompt.''))) (w\<lparr>typed := rest\<rparr>))
    \<and> promptForRevision w =
        (Ok v,
         emits (Text_prompt (T ''What would you like me to change in this script?'') None
                # replicate n (Validation (T ''Please enter a prompt.''))) (w\<lparr>typed := rest\<rparr>)))
   \<and> fst (getPrompt i w) \<noteq> Ok [] \<and> fst (getPrompt i w) \<noteq> Stop (Throw err)
   \<and> fst (promptForRevision w) \<noteq> Ok [] \<and> fst (promptForRevision w) \<noteq> Stop (Throw err)
   \<and> take (length (trace w)) (trace (snd (prompt picks usePrompt silentMode cfg w))) = trace w
   \<and> list_all prompted
        (requests_of (emitted w (snd (prompt picks usePrompt silentMode cfg w))))"
  using getPrompt_waiting [of w n i] prompt_waiting [of w n picks silentMode c]
    extends_kept [OF prompt_extends, of w picks usePrompt silentMode cfg]
    revision_waiting [of w n picks script key ep sm]
    getPrompt_submitted [of w n v rest i] promptForRevision_submitted [of w n v rest]
    getPrompt_result [of i w] promptForRevision_result [of w]
    extends_requests [OF prompt_extends, of w picks usePrompt silentMode cfg]
  by simp

theorem empty_prompt_rejected_witness:
  "typed (world0\<lparr>typed := [Submit []]\<rparr>) = replicate (Suc 0) (Submit [])
   \<and> typed (world0\<lparr>typed := [Submit [], Submit hi]\<rparr>) = replicate (Suc 0) (Submit []) @ Submit hi # []
   \<and> hi \<noteq> []
   \<and> prompt [] None None (Inr config0) (world0\<lparr>typed := [Submit []]\<rparr>) =
       (Stop Blocked,
        emits [Intro, Log_info [], Text_prompt (T ''What would you like me to do?'') None,
               Validation (T ''Please enter a prompt.'')] world0)
   \<and> fst (getPrompt None (world0\<lparr>typed := [Submit [], Submit hi]\<rparr>)) = Ok hi
   \<and> fst (promptForRevision (world0\<lparr>typed := [Submit [], Submit hi]\<rparr>)) = Ok hi"
  using empty_prompt_rejected [where w = "world0\<lparr>typed := [Submit []]\<rparr>" and n = "Suc 0"
      and picks = "[]" and silentMode = None and c = config0]
    empty_prompt_rejected [where w = "world0\<lparr>typed := [Submit [], Submit hi]\<rparr>" and n = "Suc 0"
      and v = hi and rest = "[]" and i = None]
  by (simp add: world0_def)

text \<open>
  Claim C8, as the program has it.  Choosing \<open>Cancel\<close> at the menu writes the closing
  line and ends the process with status 0.  Cancelling the first prompt or the revision
  prompt (also after empty submissions) calls the cancel handler of that prompt, which
  writes its closing message and ends the process with status 0; the message is the last
  event.  The input of \<open>Edit\<close> has no cancel handler: cancelling it writes no closing
  message and does not end the process, the flow returns.  The statements about the
  cancel key are made for a world in which no spinner is running: the spinner of an
  \<open>Explain\<close> that found a text is never stopped, and what the cancel key does while it
  runs is decided by the prompt library, so that case is left open.
\<close>

theorem cancel_exits_with_success:
  "runOrReviseFlow (Pick Cancel # picks) script key ep sm w =
     (Stop (Exit 0),
      emits [Select (menu_message script) (menu_options script), Cancel_msg Banner] w)
   \<and> (idle (trace w) \<and> typed w = replicate n (Submit []) @ Ctrl_C # rest \<longrightarrow>
        getPrompt i w =
          (Stop (Exit 0),
           emits (Text_prompt (T ''What would you like me to do?'') i
                  # replicate n (Validation (T ''Please enter a prompt.''))
                  @ [Cancel_msg (T ''Goodbye!'')]) (w\<lparr>typed := rest\<rparr>))
      \<and> promptForRevision w =
          (Stop (Exit 0),
           emits (Text_prompt (T ''What would you like me to change in this script?'') None
                  # replicate n (Validation (T ''Please enter a prompt.''))
                  @ [Cancel_msg Banner]) (w\<lparr>typed := rest\<rparr>))
      \<and> prompt picks None silentMode (Inr c) w =
          (Stop (Exit 0),
           emits ([Intro, Log_info [], Text_prompt (T ''What would you like me to do?'') None]
                  @ replicate n (Validation (T ''Please enter a prompt.''))
                  @ [Cancel_msg (T ''Goodbye!'')]) (w\<lparr>typed := rest\<rparr>))
      \<and> runOrReviseFlow (Pick Revise # picks) script key ep sm w =
          (Stop (Exit 0),
           emits (Select (menu_message script) (menu_options script)
                  # Text_prompt (T ''What would you like me to change in this script?'') None
                  # replicate n (Validation (T ''Please enter a prompt.''))
                  @ [Cancel_msg Banner]) (w\<lparr>typed := rest\<rparr>)))
   \<and> (idle (trace w) \<and> \<not> emptyScript script \<and> typed w = Ctrl_C # rest \<longrightarrow>
        runOrReviseFlow (Pick Edit # picks) script key ep sm w =
          (Ok (),
           emits [Select (menu_message script) (menu_options script),
                  Text_prompt (T ''you can edit script here:'') (Some script)]
             (w\<lparr>typed := rest\<rparr>)))"
  by (simp add: menu_Cancel getPrompt_cancelled [where n = n and rest = rest]
      promptForRevision_cancelled [where n = n and rest = rest]
      prompt_cancelled [where n = n and rest = rest]
      revision_cancelled [where n = n and rest = rest]
      menu_Edit_cancelled [where rest = rest])

theorem cancel_exits_with_success_witness:
  "idle (trace world0)
   \<and> typed (world0\<lparr>typed := [Submit [], Ctrl_C]\<rparr>) =
       replicate (Suc 0) (Submit []) @ Ctrl_C # []
   \<and> \<not> emptyScript ls \<and> typed (world0\<lparr>typed := [Ctrl_C]\<rparr>) = Ctrl_C # []
   \<and> prompt [] None None (Inr config0) (world0\<lparr>typed := [Submit [], Ctrl_C]\<rparr>) =
       (Stop (Exit 0),
        emits [Intro, Log_info [], Text_prompt (T ''What would you like me to do?'') None,
               Validation (T ''Please enter a prompt.''), Cancel_msg (T ''Goodbye!'')] world0)
   \<and> fst (runOrReviseFlow [Pick Revise] ls k0 e0 False
          (world0\<lparr>typed := [Submit [], Ctrl_C]\<rparr>)) = Stop (Exit 0)
   \<and> fst (runOrReviseFlow [Pick Cancel] ls k0 e0 False world0) = Stop (Exit 0)
   \<and> fst (runOrReviseFlow [Pick Edit] ls k0 e0 False (world0\<lparr>typed := [Ctrl_C]\<rparr>)) = Ok ()"
  using cancel_exits_with_success [where w = "world0\<lparr>typed := [Submit [], Ctrl_C]\<rparr>"
      and n = "Suc 0" and rest = "[]" and picks = "[]" and silentMode = None and c = config0
      and script = ls and key = k0 and ep = e0 and sm = False]
    cancel_exits_with_success [where w = "world0\<lparr>typed := [Ctrl_C]\<rparr>" and rest = "[]"
      and picks = "[]" and script = ls and key = k0 and ep = e0 and sm = False]
    cancel_exits_with_success [where w = world0 and picks = "[]" and script = ls and key = k0
      and ep = e0 and sm = False]
  by (simp add: world0_def idle_def)

text \<open>
  The claim as it is written (cancelling during a text prompt writes a closing message
  and ends the process with status 0) fails at the text input of \<open>Edit\<close>: with the
  script \<open>ls\<close>, the user chooses \<open>Edit\<close> and cancels the input; the flow returns, and the
  events of the session are the menu and the text input, with no closing message.
\<close>

theorem edit_input_cancel_counterexample:
  "runOrReviseFlow [Pick Edit] ls k0 e0 False (world0\<lparr>typed := [Ctrl_C]\<rparr>) =
     (Ok (),
      emits [Select (T ''Run this script?'') (menu_options ls),
             Text_prompt (T ''you can edit script here:'') (Some ls)] world0)"
  by (simp add: menu_Edit_cancelled [where rest = "[]"] menu_message_def world0_def)

text \<open>
  Claim C9.  For a script made of white space only, the script counts as empty: the menu
  is framed as \<open>Revise this script?\<close> and has neither \<open>Run\<close> nor \<open>Edit\<close>.
\<close>

theorem blank_script_menu:
  assumes "\<forall>c\<in>set script. is_white_space c"
  shows "emptyScript script
    \<and> menu_message script = T ''Revise this script?''
    \<and> offered script = [Explain, Revise, Copy, Cancel]
    \<and> Run \<notin> set (offered script) \<and> Edit \<notin> set (offered script)
    \<and> runOrReviseFlow [] script key ep sm w =
        (Stop Blocked, emit (Select (T ''Revise this script?'') (menu_options script)) w)"
proof -
  from assms have "emptyScript script"
    by (simp add: emptyScript_def trim_white)
  then show ?thesis
    by (simp add: menu_message_def offered_emptyScript)
qed

theorem blank_script_menu_witness:
  "list_all is_white_space blanks
   \<and> menu_message blanks = T ''Revise this script?''
   \<and> offered blanks = [Explain, Revise, Copy, Cancel]"
proof -
  have h: "\<forall>c\<in>set blanks. is_white_space c"
    by (simp add: blanks_def is_white_space_def)
  from blank_script_menu [OF h] h show ?thesis by (simp add: list_all_iff)
qed

text \<open>
  Claim C10.  With a \<open>usePrompt\<close> that is not empty, the first events of the session are
  the intro, the echo of \<open>usePrompt\<close>, the spinner and the generation request made from
  \<open>usePrompt\<close>: no text input is opened and nothing is validated before it, and when the
  backend does not answer, what the user would type is untouched.  With the empty string
  as \<open>usePrompt\<close> the session is the one with no \<open>usePrompt\<close> at all.
\<close>

theorem usePrompt_skips_prompt:
  "(u \<noteq> [] \<longrightarrow>
      take 4 (emitted w (snd (prompt picks (Some u) silentMode (Inr c) w))) =
        [Intro, Log_info u, Spin_start (T ''Loading...''),
         Request (Script_and_info u (OPENAI_KEY c) (MODEL c) (OPENAI_API_ENDPOINT c))]
    \<and> (replies w = [] \<longrightarrow>
         prompt picks (Some u) silentMode (Inr c) w =
           (Stop Blocked,
            emits [Intro, Log_info u, Spin_start (T ''Loading...''),
                   Request (Script_and_info u (OPENAI_KEY c) (MODEL c)
                     (OPENAI_API_ENDPOINT c))] w)))
   \<and> prompt picks (Some []) silentMode cfg w = prompt picks None silentMode cfg w"
proof (intro conjI impI)
  assume u: "u \<noteq> []"
  from prompt_first_events [OF u, of picks silentMode c w]
  show "take 4 (emitted w (snd (prompt picks (Some u) silentMode (Inr c) w))) =
        [Intro, Log_info u, Spin_start (T ''Loading...''),
         Request (Script_and_info u (OPENAI_KEY c) (MODEL c) (OPENAI_API_ENDPOINT c))]"
    by (auto simp: emitted_def)
  assume "replies w = []"
  with u show "prompt picks (Some u) silentMode (Inr c) w =
           (Stop Blocked,
            emits [Intro, Log_info u, Spin_start (T ''Loading...''),
                   Request (Script_and_info u (OPENAI_KEY c) (MODEL c)
                     (OPENAI_API_ENDPOINT c))] w)"
    by (rule prompt_blocked_usePrompt)
next
  show "prompt picks (Some []) silentMode cfg w = prompt picks None silentMode cfg w"
    by (rule prompt_empty_usePrompt)
qed

theorem usePrompt_skips_prompt_witness:
  "hi \<noteq> [] \<and> replies world0 = []
   \<and> prompt [] (Some hi) None (Inr config0) world0 =
       (Stop Blocked,
        emits [Intro, Log_info hi, Spin_start (T ''Loading...''),
               Request (Script_and_info hi k0 hi e0)] world0)
   \<and> take 4 (emitted world0 (snd (prompt [] (Some hi) None (Inr config0) world0))) =
       [Intro, Log_info hi, Spin_start (T ''Loading...''), Request (Script_and_info hi k0 hi e0)]"
  using usePrompt_skips_prompt [where u = hi and w = world0 and picks = "[]" and silentMode = None
      and c = config0]
  by (simp add: config0_def emitted_def)

end
